theory Spec2Isabelle
  imports Main "HOL-Library.Sublist" "HOL-Library.AList"
begin

section \<open>Python values\<close>

text \<open>
  A Python \<open>str\<close> is a \<open>string\<close> (a list of characters); the test \<open>a in s\<close> on two
  strings is \<open>sublist a s\<close> and \<open>s.startswith(a)\<close> is \<open>prefix a s\<close>, both from
  \<open>HOL-Library.Sublist\<close>. Characters are 8-bit, so the model covers text in the
  Latin-1 range; \<open>lower\<close> folds the ASCII capitals, as \<open>str.lower\<close> does on them.
\<close>

definition lower_char :: "char \<Rightarrow> char" where
  "lower_char c =
     (if 65 \<le> (of_char c :: nat) \<and> (of_char c :: nat) \<le> 90
      then char_of ((of_char c :: nat) + 32) else c)"

definition lower :: "string \<Rightarrow> string" where
  "lower s = map lower_char s"

text \<open>\<open>str(n)\<close> for an integer: its decimal digits, with a sign.\<close>

definition digit_char :: "nat \<Rightarrow> char" where
  "digit_char d = char_of (48 + d)"

fun str_nat :: "nat \<Rightarrow> string" where
  "str_nat n = (if n < 10 then [digit_char n] else str_nat (n div 10) @ [digit_char (n mod 10)])"

declare str_nat.simps [simp del]

definition str_int :: "int \<Rightarrow> string" where
  "str_int i = (if i < 0 then CHR ''-'' # str_nat (nat (- i)) else str_nat (nat i))"

text \<open>
  A parsed JSON document, as \<open>json.load\<close> returns it: \<open>None\<close>, a bool, an int, a
  str, a list or a dict. A dict is an association list read with \<open>map_of\<close>.
\<close>

datatype json =
    JNull
  | JBool bool
  | JInt int
  | JStr string
  | JList "json list"
  | JObj "(string \<times> json) list"

text \<open>Python's truth value of such an object (\<open>if x\<close>, \<open>not x\<close>, \<open>x or y\<close>).\<close>

fun truthy :: "json \<Rightarrow> bool" where
  "truthy JNull = False"
| "truthy (JBool b) = b"
| "truthy (JInt i) = (i \<noteq> 0)"
| "truthy (JStr s) = (s \<noteq> [])"
| "truthy (JList xs) = (xs \<noteq> [])"
| "truthy (JObj kvs) = (kvs \<noteq> [])"

text \<open>
  The exceptions the modelled code can raise besides botocore's \<open>ClientError\<close>, which
  the checkers catch and which is therefore a value of the control plane's responses.
\<close>

datatype exn =
    NameError string
  | AttributeError
  | TypeError
  | ParamValidationError
  | JSONDecodeError

datatype 'a response = ClientError string | Response 'a

text \<open>
  An expected-check declaration of a task's \<open>spec.yaml\<close>: a count or a boolean flag.
  Python compares an int with a bool by the bool's numeric value, and prints a bool
  as \<open>True\<close> or \<open>False\<close>.
\<close>

datatype expected = ECount int | EFlag bool

type_synonym expected_checks = "(string \<times> expected) list"

definition get_expected :: "expected_checks \<Rightarrow> string \<Rightarrow> expected \<Rightarrow> expected" where
  "get_expected expected_checks k d = (case map_of expected_checks k of None \<Rightarrow> d | Some v \<Rightarrow> v)"

fun expected_int :: "expected \<Rightarrow> int" where
  "expected_int (ECount i) = i"
| "expected_int (EFlag b) = (if b then 1 else 0)"

fun str_expected :: "expected \<Rightarrow> string" where
  "str_expected (ECount i) = str_int i"
| "str_expected (EFlag b) = (if b then ''True'' else ''False'')"

text \<open>\<open>expected_checks.get(k)\<close> used as a condition: a missing key gives \<open>None\<close>.\<close>

definition expects :: "expected_checks \<Rightarrow> string \<Rightarrow> bool" where
  "expects expected_checks k =
     (case map_of expected_checks k of None \<Rightarrow> False | Some v \<Rightarrow> expected_int v \<noteq> 0)"

text \<open>\<open>outputs.get(k, {}).get('value', d)\<close> on the parsed \<open>outputs.json\<close>.\<close>

definition output_value :: "json \<Rightarrow> string \<Rightarrow> json \<Rightarrow> exn + json" where
  "output_value outputs k d =
     (case outputs of
        JObj kvs \<Rightarrow>
          (case map_of kvs k of
             None \<Rightarrow> Inr d
           | Some (JObj fields) \<Rightarrow>
               (case map_of fields ''value'' of None \<Rightarrow> Inr d | Some v \<Rightarrow> Inr v)
           | Some _ \<Rightarrow> Inl AttributeError)
      | _ \<Rightarrow> Inl AttributeError)"

section \<open>Post-apply checks (runner/checks.py)\<close>

text \<open>
  What a checker returns: the tuple \<open>(pass_check, errors, counts, wiring, details)\<close>,
  with its dicts as association lists in insertion order.
\<close>

record chk =
  pass_check :: bool
  errors :: "string list"
  counts :: "(string \<times> nat) list"
  wiring :: "(string \<times> bool) list"
  details :: "(string \<times> json) list"

definition chk_init :: chk where
  "chk_init = \<lparr>pass_check = True, errors = [], counts = [], wiring = [], details = []\<rparr>"

text \<open>The early return \<open>return False, [msg], {}, {}, {}\<close>.\<close>

definition chk_abort :: "string \<Rightarrow> chk" where
  "chk_abort msg = \<lparr>pass_check = False, errors = [msg], counts = [], wiring = [], details = []\<rparr>"

text \<open>
  The EC2 control plane as the checkers query it. Each query either raises
  \<open>ClientError\<close> with a message or returns the list the code reads from the response.
\<close>

record subnet =
  subnet_VpcId :: string

record ec2_instance =
  instance_SubnetId :: string

record security_group =
  sg_VpcId :: string
  sg_IpPermissions :: "json list option"
  sg_IpPermissionsEgress :: "json list option"

record ec2 =
  describe_vpcs :: "string \<Rightarrow> json list response"
  describe_subnets :: "string \<Rightarrow> string \<Rightarrow> subnet list response"
  describe_instances :: "string \<Rightarrow> string \<Rightarrow> ec2_instance list list response"
  describe_security_groups :: "string \<Rightarrow> string \<Rightarrow> security_group list response"

text \<open>
  \<open>set(subnet_ids)\<close> of the \<open>subnet_ids\<close> output, as far as a string can be a member of
  it: the elements of a list (unhashable ones raise \<open>TypeError\<close>), the characters of a
  string, the keys of a dict; anything else is not iterable.
\<close>

fun hashable :: "json \<Rightarrow> bool" where
  "hashable (JList xs) = False"
| "hashable (JObj kvs) = False"
| "hashable j = True"

fun str_members :: "json list \<Rightarrow> string list" where
  "str_members [] = []"
| "str_members (JStr s # xs) = s # str_members xs"
| "str_members (x # xs) = str_members xs"

fun str_set :: "json \<Rightarrow> exn + string list" where
  "str_set (JList xs) = (if list_all hashable xs then Inr (str_members xs) else Inl TypeError)"
| "str_set (JStr s) = Inr (map (\<lambda>c. [c]) s)"
| "str_set (JObj kvs) = Inr (map fst kvs)"
| "str_set j = Inl TypeError"

text \<open>
  \<open>_check_vpc_3subnets_3ec2\<close>, lines 148-240, one definition per \<open>try\<close> block. The
  block for the VPC (lines 168-180) either returns early or goes on with the counters.
\<close>

definition vpc3_subnets :: "ec2 \<Rightarrow> string \<Rightarrow> string \<Rightarrow> expected_checks \<Rightarrow> chk \<Rightarrow> chk" where
  "vpc3_subnets ec2_client vpc_id task_id expected_checks c =
     (case describe_subnets ec2_client vpc_id task_id of
        Response subnets \<Rightarrow>
          (let subnet_count = length subnets;
               expected_subnets = get_expected expected_checks ''subnet_count'' (ECount 3);
               c1 = (if int subnet_count \<noteq> expected_int expected_subnets
                     then c\<lparr>pass_check := False,
                            errors := errors c @ [''Expected '' @ str_expected expected_subnets
                              @ '' subnets, found '' @ str_nat subnet_count]\<rparr>
                     else c);
               c2 = c1\<lparr>counts := AList.update ''subnet'' subnet_count (counts c1)\<rparr>;
               c3 = fold (\<lambda>subnet c'. if subnet_VpcId subnet \<noteq> vpc_id
                            then c'\<lparr>pass_check := False,
                                    errors := errors c' @ [''Subnet wiring error: subnet not in expected VPC'']\<rparr>
                            else c') subnets c2
           in c3\<lparr>wiring := AList.update ''subnets_in_vpc'' True (wiring c3)\<rparr>)
      | ClientError e \<Rightarrow>
          c\<lparr>pass_check := False, errors := errors c @ [''Failed to describe subnets: '' @ e]\<rparr>)"

definition vpc3_instances ::
  "ec2 \<Rightarrow> string \<Rightarrow> string \<Rightarrow> json \<Rightarrow> expected_checks \<Rightarrow> chk \<Rightarrow> exn + chk" where
  "vpc3_instances ec2_client vpc_id task_id subnet_ids expected_checks c =
     (case describe_instances ec2_client task_id vpc_id of
        Response reservations \<Rightarrow>
          (let instances = concat reservations;
               instance_count = length instances;
               expected_instances = get_expected expected_checks ''instance_count'' (ECount 3);
               c1 = (if int instance_count \<noteq> expected_int expected_instances
                     then c\<lparr>pass_check := False,
                            errors := errors c @ [''Expected '' @ str_expected expected_instances
                              @ '' instances, found '' @ str_nat instance_count]\<rparr>
                     else c);
               c2 = c1\<lparr>counts := AList.update ''instance'' instance_count (counts c1)\<rparr>;
               found_subnet_ids = map instance_SubnetId instances
           in case str_set subnet_ids of
                Inl e \<Rightarrow> Inl e
              | Inr expected_subnet_ids \<Rightarrow>
                  (let c3 = (if \<not> list_all (\<lambda>s. s \<in> set expected_subnet_ids) found_subnet_ids
                             then c2\<lparr>pass_check := False,
                                     errors := errors c2 @ [''Instance wiring error: instance in unexpected subnet'']\<rparr>
                             else c2)
                   in Inr (c3\<lparr>wiring := AList.update ''instances_in_subnets'' True (wiring c3)\<rparr>)))
      | ClientError e \<Rightarrow>
          Inr (c\<lparr>pass_check := False, errors := errors c @ [''Failed to describe instances: '' @ e]\<rparr>))"

definition check_vpc_3subnets_3ec2 ::
  "ec2 \<Rightarrow> json \<Rightarrow> string \<Rightarrow> expected_checks \<Rightarrow> exn + chk" where
  "check_vpc_3subnets_3ec2 ec2_client outputs task_id expected_checks =
     (case output_value outputs ''vpc_id'' JNull of Inl e \<Rightarrow> Inl e | Inr vpc_id \<Rightarrow>
      case output_value outputs ''subnet_ids'' (JList []) of Inl e \<Rightarrow> Inl e | Inr subnet_ids \<Rightarrow>
      case output_value outputs ''instance_ids'' (JList []) of Inl e \<Rightarrow> Inl e | Inr instance_ids \<Rightarrow>
      if \<not> truthy vpc_id \<or> vpc_id = JStr ''null''
      then Inr (chk_abort ''VPC ID not found in outputs'')
      else
        (let c0 = chk_init\<lparr>details := [(''vpc_id'', vpc_id), (''subnet_ids'', subnet_ids),
                                         (''instance_ids'', instance_ids)]\<rparr>
         in case vpc_id of
              JStr v \<Rightarrow>
                (case describe_vpcs ec2_client v of
                   ClientError e \<Rightarrow> Inr (chk_abort (''Failed to describe VPC: '' @ e))
                 | Response vpcs \<Rightarrow>
                     (let vpc_count = length vpcs;
                          expected_vpc = get_expected expected_checks ''vpc_count'' (ECount 1);
                          c1 = (if int vpc_count \<noteq> expected_int expected_vpc
                                then c0\<lparr>pass_check := False,
                                        errors := errors c0 @ [''Expected '' @ str_expected expected_vpc
                                          @ '' VPC, found '' @ str_nat vpc_count]\<rparr>
                                else c0);
                          c2 = c1\<lparr>counts := AList.update ''vpc'' vpc_count (counts c1)\<rparr>
                      in vpc3_instances ec2_client v task_id subnet_ids expected_checks
                           (vpc3_subnets ec2_client v task_id expected_checks c2)))
            | _ \<Rightarrow> Inl ParamValidationError))"

text \<open>
  \<open>_check_security_group\<close>, lines 354-423. \<open>sg['VpcId'] != vpc_id\<close> compares the
  group's VPC with the output value, here known to be a string.
\<close>

definition sg_group ::
  "ec2 \<Rightarrow> string \<Rightarrow> string \<Rightarrow> string \<Rightarrow> expected_checks \<Rightarrow> chk \<Rightarrow> chk" where
  "sg_group ec2_client vpc_id security_group_id task_id expected_checks c =
     (case describe_security_groups ec2_client security_group_id task_id of
        Response groups \<Rightarrow>
          (let sg_count = length groups;
               expected_sg = get_expected expected_checks ''security_group_count'' (ECount 1);
               c1 = (if int sg_count \<noteq> expected_int expected_sg
                     then c\<lparr>pass_check := False,
                            errors := errors c @ [''Expected '' @ str_expected expected_sg
                              @ '' security group, found '' @ str_nat sg_count]\<rparr>
                     else c);
               c2 = c1\<lparr>counts := AList.update ''security_group'' sg_count (counts c1)\<rparr>
           in case groups of
                [] \<Rightarrow> c2
              | sg # _ \<Rightarrow>
                  (let c3 = (if sg_VpcId sg \<noteq> vpc_id
                             then c2\<lparr>pass_check := False,
                                     errors := errors c2 @ [''Security group not in expected VPC'']\<rparr>
                             else c2);
                       c4 = c3\<lparr>wiring := AList.update ''security_group_in_vpc'' True (wiring c3)\<rparr>;
                       ingress_count = (case sg_IpPermissions sg of None \<Rightarrow> 0 | Some ps \<Rightarrow> length ps);
                       expected_ingress = get_expected expected_checks ''ingress_rule_count'' (ECount 0);
                       c5 = (if int ingress_count \<noteq> expected_int expected_ingress
                             then c4\<lparr>pass_check := False,
                                     errors := errors c4 @ [''Expected '' @ str_expected expected_ingress
                                       @ '' ingress rules, found '' @ str_nat ingress_count]\<rparr>
                             else c4);
                       c6 = c5\<lparr>counts := AList.update ''ingress_rule'' ingress_count (counts c5)\<rparr>;
                       egress_count = (case sg_IpPermissionsEgress sg of None \<Rightarrow> 0 | Some ps \<Rightarrow> length ps);
                       expected_egress = get_expected expected_checks ''egress_rule_count'' (ECount 0);
                       c7 = (if int egress_count \<noteq> expected_int expected_egress
                             then c6\<lparr>pass_check := False,
                                     errors := errors c6 @ [''Expected '' @ str_expected expected_egress
                                       @ '' egress rules, found '' @ str_nat egress_count]\<rparr>
                             else c6)
                   in c7\<lparr>counts := AList.update ''egress_rule'' egress_count (counts c7)\<rparr>))
      | ClientError e \<Rightarrow>
          c\<lparr>pass_check := False, errors := errors c @ [''Failed to describe security group: '' @ e]\<rparr>)"

definition check_security_group ::
  "ec2 \<Rightarrow> json \<Rightarrow> string \<Rightarrow> expected_checks \<Rightarrow> exn + chk" where
  "check_security_group ec2_client outputs task_id expected_checks =
     (case output_value outputs ''vpc_id'' JNull of Inl e \<Rightarrow> Inl e | Inr vpc_id \<Rightarrow>
      case output_value outputs ''security_group_id'' JNull of Inl e \<Rightarrow> Inl e | Inr security_group_id \<Rightarrow>
      if \<not> truthy vpc_id \<or> \<not> truthy security_group_id
      then Inr (chk_abort ''VPC ID or Security Group ID not found in outputs'')
      else
        (let c0 = chk_init\<lparr>details := [(''vpc_id'', vpc_id), (''security_group_id'', security_group_id)]\<rparr>
         in case vpc_id of
              JStr v \<Rightarrow>
                (case describe_vpcs ec2_client v of
                   ClientError e \<Rightarrow> Inr (chk_abort (''Failed to describe VPC: '' @ e))
                 | Response vpcs \<Rightarrow>
                     (let vpc_count = length vpcs;
                          expected_vpc = get_expected expected_checks ''vpc_count'' (ECount 1);
                          c1 = (if int vpc_count \<noteq> expected_int expected_vpc
                                then c0\<lparr>pass_check := False,
                                        errors := errors c0 @ [''Expected '' @ str_expected expected_vpc
                                          @ '' VPC, found '' @ str_nat vpc_count]\<rparr>
                                else c0);
                          c2 = c1\<lparr>counts := AList.update ''vpc'' vpc_count (counts c1)\<rparr>
                      in case security_group_id of
                           JStr g \<Rightarrow> Inr (sg_group ec2_client v g task_id expected_checks c2)
                         | _ \<Rightarrow> Inl ParamValidationError))
            | _ \<Rightarrow> Inl ParamValidationError))"

text \<open>
  The S3 control plane. \<open>checks.py\<close> imports \<open>log_info\<close>, \<open>log_error\<close>,
  \<open>export_localstack_env\<close> and \<open>load_spec\<close> from \<open>utils\<close> (line 10) but not
  \<open>log_warn\<close>, and defines no such name: evaluating a call of \<open>log_warn\<close> in this module
  raises \<open>NameError\<close>.
\<close>

record s3 =
  head_bucket :: "string \<Rightarrow> unit response"
  get_bucket_versioning :: "string \<Rightarrow> string option response"
  get_bucket_lifecycle_configuration :: "string \<Rightarrow> json list option response"
  get_public_access_block :: "string \<Rightarrow> json option response"
  get_bucket_policy :: "string \<Rightarrow> string option response"
  get_bucket_cors :: "string \<Rightarrow> json list option response"

definition log_warn :: "exn + 'a" where
  "log_warn = Inl (NameError ''log_warn'')"

text \<open>\<open>_check_s3_tasks\<close>, lines 243-351, one definition per optional section.\<close>

definition s3_versioning :: "s3 \<Rightarrow> string \<Rightarrow> expected_checks \<Rightarrow> chk \<Rightarrow> exn + chk" where
  "s3_versioning s3_client bucket_id expected_checks c =
     (if expects expected_checks ''versioning_enabled''
      then (case get_bucket_versioning s3_client bucket_id of
              Response status \<Rightarrow>
                (let versioning_status = (case status of None \<Rightarrow> [] | Some st \<Rightarrow> st);
                     c1 = (if versioning_status \<noteq> ''Enabled''
                           then c\<lparr>pass_check := False,
                                  errors := errors c @ [''Versioning not enabled: '' @ versioning_status]\<rparr>
                           else c)
                 in Inr (c1\<lparr>details := AList.update ''versioning_status'' (JStr versioning_status) (details c1)\<rparr>))
            | ClientError e \<Rightarrow> log_warn)
      else Inr c)"

definition s3_lifecycle :: "s3 \<Rightarrow> string \<Rightarrow> expected_checks \<Rightarrow> chk \<Rightarrow> exn + chk" where
  "s3_lifecycle s3_client bucket_id expected_checks c =
     (if expects expected_checks ''lifecycle_rule_count''
      then (case get_bucket_lifecycle_configuration s3_client bucket_id of
              Response rules \<Rightarrow>
                (let rule_count = (case rules of None \<Rightarrow> 0 | Some rs \<Rightarrow> length rs);
                     expected_rules = get_expected expected_checks ''lifecycle_rule_count'' (ECount 1);
                     c1 = (if int rule_count \<noteq> expected_int expected_rules
                           then c\<lparr>pass_check := False,
                                  errors := errors c @ [''Expected '' @ str_expected expected_rules
                                    @ '' lifecycle rules, found '' @ str_nat rule_count]\<rparr>
                           else c)
                 in Inr (c1\<lparr>counts := AList.update ''lifecycle_rule'' rule_count (counts c1),
                             wiring := AList.update ''lifecycle_rule_attached'' True (wiring c1)\<rparr>))
            | ClientError e \<Rightarrow>
                (if \<not> sublist ''NoSuchLifecycleConfiguration'' e then log_warn
                 else if expects expected_checks ''lifecycle_rule_count''
                 then Inr (c\<lparr>pass_check := False,
                             errors := errors c @ [''Lifecycle configuration not found'']\<rparr>)
                 else Inr c))
      else Inr c)"

definition s3_public_access_block :: "s3 \<Rightarrow> string \<Rightarrow> expected_checks \<Rightarrow> chk \<Rightarrow> exn + chk" where
  "s3_public_access_block s3_client bucket_id expected_checks c =
     (if expects expected_checks ''public_access_block_count''
      then (case get_public_access_block s3_client bucket_id of
              Response pab \<Rightarrow>
                (let pab_config = (case pab of None \<Rightarrow> JObj [] | Some cfg \<Rightarrow> cfg)
                 in Inr (c\<lparr>counts := AList.update ''public_access_block'' 1 (counts c),
                            details := AList.update ''public_access_block'' pab_config (details c),
                            wiring := AList.update ''public_access_block_attached'' True (wiring c)\<rparr>))
            | ClientError e \<Rightarrow>
                (if \<not> sublist ''NoSuchPublicAccessBlockConfiguration'' e then log_warn
                 else if expects expected_checks ''public_access_block_count''
                 then Inr (c\<lparr>pass_check := False,
                             errors := errors c @ [''Public access block not found'']\<rparr>)
                 else Inr c))
      else Inr c)"

definition s3_bucket_policy :: "s3 \<Rightarrow> string \<Rightarrow> expected_checks \<Rightarrow> chk \<Rightarrow> exn + chk" where
  "s3_bucket_policy s3_client bucket_id expected_checks c =
     (if expects expected_checks ''bucket_policy_count''
      then (case get_bucket_policy s3_client bucket_id of
              Response policy \<Rightarrow>
                Inr (c\<lparr>counts := AList.update ''bucket_policy'' 1 (counts c),
                       details := AList.update ''bucket_policy''
                         (case policy of None \<Rightarrow> JNull | Some p \<Rightarrow> JStr p) (details c),
                       wiring := AList.update ''bucket_policy_attached'' True (wiring c)\<rparr>)
            | ClientError e \<Rightarrow>
                (if \<not> sublist ''NoSuchBucketPolicy'' e then log_warn
                 else if expects expected_checks ''bucket_policy_count''
                 then Inr (c\<lparr>pass_check := False, errors := errors c @ [''Bucket policy not found'']\<rparr>)
                 else Inr c))
      else Inr c)"

definition s3_cors :: "s3 \<Rightarrow> string \<Rightarrow> expected_checks \<Rightarrow> chk \<Rightarrow> exn + chk" where
  "s3_cors s3_client bucket_id expected_checks c =
     (if expects expected_checks ''cors_configuration_count''
      then (case get_bucket_cors s3_client bucket_id of
              Response cors \<Rightarrow>
                (let cors_rules = (case cors of None \<Rightarrow> [] | Some rs \<Rightarrow> rs)
                 in if length cors_rules > 0
                    then Inr (c\<lparr>counts := AList.update ''cors_configuration'' 1 (counts c),
                                details := AList.update ''cors_rules'' (JList cors_rules) (details c),
                                wiring := AList.update ''cors_configuration_attached'' True (wiring c)\<rparr>)
                    else if expects expected_checks ''cors_configuration_count''
                    then Inr (c\<lparr>pass_check := False,
                                errors := errors c @ [''CORS configuration not found or empty'']\<rparr>)
                    else Inr c)
            | ClientError e \<Rightarrow>
                (if \<not> sublist ''NoSuchCORSConfiguration'' e then log_warn
                 else if expects expected_checks ''cors_configuration_count''
                 then Inr (c\<lparr>pass_check := False, errors := errors c @ [''CORS configuration not found'']\<rparr>)
                 else Inr c))
      else Inr c)"

text \<open>Sequencing of the sections: an exception of one ends the checker.\<close>

definition and_then :: "exn + 'a \<Rightarrow> ('a \<Rightarrow> exn + 'b) \<Rightarrow> exn + 'b" where
  "and_then m f = (case m of Inl e \<Rightarrow> Inl e | Inr x \<Rightarrow> f x)"

definition check_s3_tasks :: "s3 \<Rightarrow> json \<Rightarrow> string \<Rightarrow> expected_checks \<Rightarrow> exn + chk" where
  "check_s3_tasks s3_client outputs task_id expected_checks =
     (case output_value outputs ''bucket_id'' JNull of Inl e \<Rightarrow> Inl e | Inr id1 \<Rightarrow>
      case (if truthy id1 then Inr id1 else output_value outputs ''bucket_name'' JNull) of
        Inl e \<Rightarrow> Inl e | Inr bucket_id \<Rightarrow>
      case output_value outputs ''bucket_arn'' JNull of Inl e \<Rightarrow> Inl e | Inr bucket_arn \<Rightarrow>
      if \<not> truthy bucket_id then Inr (chk_abort ''Bucket ID/name not found in outputs'')
      else
        (let c0 = chk_init\<lparr>details := [(''bucket_id'', bucket_id), (''bucket_arn'', bucket_arn)]\<rparr>
         in case bucket_id of
              JStr b \<Rightarrow>
                (case head_bucket s3_client b of
                   ClientError e \<Rightarrow> Inr (chk_abort (''Bucket '' @ b @ '' does not exist: '' @ e))
                 | Response u \<Rightarrow>
                     and_then (s3_versioning s3_client b expected_checks
                                 (c0\<lparr>counts := AList.update ''bucket'' 1 (counts c0)\<rparr>))
                       (\<lambda>c1. and_then (s3_lifecycle s3_client b expected_checks c1)
                       (\<lambda>c2. and_then (s3_public_access_block s3_client b expected_checks c2)
                       (\<lambda>c3. and_then (s3_bucket_policy s3_client b expected_checks c3)
                       (\<lambda>c4. s3_cors s3_client b expected_checks c4)))))
            | _ \<Rightarrow> Inl ParamValidationError))"

text \<open>\<open>_check_generic\<close>, lines 836-851: it warns before it returns.\<close>

definition check_generic :: "json \<Rightarrow> string \<Rightarrow> expected_checks \<Rightarrow> exn + chk" where
  "check_generic outputs task_id expected_checks =
     (if \<not> truthy outputs then Inr (chk_abort ''No outputs found'')
      else and_then log_warn
             (\<lambda>u :: unit. Inr (chk_init\<lparr>details := [(''outputs'', outputs)]\<rparr>)))"

text \<open>
  \<open>run_checks\<close>, lines 13-145. Its surroundings: the task's \<open>spec.yaml\<close> (absent, or
  its \<open>checks\<close> mapping), the text of \<open>outputs.json\<close> in the work directory (absent or
  present), \<open>json.loads\<close>, and the control plane. The five checkers of lines 426-833
  (IAM role and policy, internet gateway, NAT gateway, instance profile, multiple
  route tables) are a parameter of the surroundings: what they return there.
\<close>

record checks_env =
  spec_file :: "string \<Rightarrow> expected_checks option"
  outputs_json :: "string option"
  json_loads :: "string \<Rightarrow> json option"
  env_ec2 :: ec2
  env_s3 :: s3
  other_checker :: "string \<Rightarrow> json \<Rightarrow> expected_checks \<Rightarrow> exn + chk"

record check_result =
  cr_task_id :: string
  cr_pass :: bool
  cr_details :: "(string \<times> json) list option"
  cr_counts :: "(string \<times> nat) list option"
  cr_wiring :: "(string \<times> bool) list option"
  cr_errors :: "string list"

definition early_result :: "string \<Rightarrow> string \<Rightarrow> check_result" where
  "early_result task_id msg =
     \<lparr>cr_task_id = task_id, cr_pass = False, cr_details = None, cr_counts = None,
      cr_wiring = None, cr_errors = [msg]\<rparr>"

definition route_checks :: "checks_env \<Rightarrow> json \<Rightarrow> string \<Rightarrow> expected_checks \<Rightarrow> exn + chk" where
  "route_checks env outputs task_id expected_checks =
     (if task_id = ''task_vpc_3subnets_3ec2''
      then check_vpc_3subnets_3ec2 (env_ec2 env) outputs task_id expected_checks
      else if prefix ''task_s3'' task_id
      then check_s3_tasks (env_s3 env) outputs task_id expected_checks
      else if task_id = ''task_security_group_complex''
      then check_security_group (env_ec2 env) outputs task_id expected_checks
      else if task_id = ''task_iam_role_policy''
      then other_checker env task_id outputs expected_checks
      else if task_id = ''task_vpc_internet_gateway''
      then other_checker env task_id outputs expected_checks
      else if task_id = ''task_vpc_nat_gateway''
      then other_checker env task_id outputs expected_checks
      else if task_id = ''task_ec2_instance_profile''
      then other_checker env task_id outputs expected_checks
      else if task_id = ''task_vpc_multiple_route_tables''
      then other_checker env task_id outputs expected_checks
      else and_then log_warn (\<lambda>u :: unit. check_generic outputs task_id expected_checks))"

definition run_checks :: "checks_env \<Rightarrow> string \<Rightarrow> exn + check_result" where
  "run_checks env task_id =
     (case spec_file env task_id of
        None \<Rightarrow> Inr (early_result task_id (''Spec file not found: tasks/'' @ task_id @ ''/spec.yaml''))
      | Some expected_checks \<Rightarrow>
          (case outputs_json env of
             None \<Rightarrow> Inr (early_result task_id ''outputs.json not found'')
           | Some txt \<Rightarrow>
               (case json_loads env txt of
                  None \<Rightarrow> Inl JSONDecodeError
                | Some outputs \<Rightarrow>
                    and_then (route_checks env outputs task_id expected_checks)
                      (\<lambda>c. Inr \<lparr>cr_task_id = task_id, cr_pass = pass_check c,
                                cr_details = Some (details c), cr_counts = Some (counts c),
                                cr_wiring = Some (wiring c), cr_errors = errors c\<rparr>))))"

section \<open>The task pipeline (runner/run_task.py)\<close>

text \<open>
  How the child process of one terraform command ends: it exits with a return code
  and its captured stdout and stderr, \<open>subprocess.run\<close> raises \<open>TimeoutExpired\<close>, or it
  raises something else, whose text is given.
\<close>

datatype proc = Exited int string | TimeoutExpired | Raised string

text \<open>\<open>_run_terraform\<close>, lines 87-136: \<open>(success, output, exit_code)\<close>.\<close>

definition default_timeout :: "string \<Rightarrow> nat" where
  "default_timeout step_name =
     (if step_name \<in> set [''apply'', ''apply_2'', ''destroy''] then 300
      else if step_name \<in> set [''plan'', ''plan_2''] then 120
      else 60)"

definition run_terraform :: "string \<Rightarrow> nat option \<Rightarrow> proc \<Rightarrow> bool \<times> string \<times> int option" where
  "run_terraform step_name timeout p =
     (let tmo = (case timeout of None \<Rightarrow> default_timeout step_name | Some t \<Rightarrow> t)
      in case p of
           Exited returncode out \<Rightarrow> (returncode = 0, out, Some returncode)
         | TimeoutExpired \<Rightarrow>
             (False, ''Terraform '' @ step_name @ '' timed out after '' @ str_nat tmo @ ''s'', None)
         | Raised e \<Rightarrow>
             (False, ''Exception running terraform '' @ step_name @ '': '' @ e, None))"

text \<open>
  The surroundings of a run: whether LocalStack answers, how each terraform step's
  process ends, and the surroundings of the checks, where \<open>outputs_json\<close> is the file
  as it is before the run.
\<close>

record world =
  check_localstack :: bool
  terraform :: "string \<Rightarrow> proc"
  checks_world :: checks_env

record task_runner =
  model_name :: string
  runner_task_id :: string
  run_id :: string
  logs_dir :: string

text \<open>
  The result dictionary. \<open>timings\<close> keeps the keys that were timed, in order (the
  values are wall-clock durations).
\<close>

record run_result =
  r_model_name :: string
  r_task_id :: string
  r_run_id :: string
  pass :: bool
  failure_category :: "string option"
  timings :: "string list"
  tool_exit_codes :: "(string \<times> int option) list"
  logs :: "(string \<times> string) list"
  r_check_result :: "check_result option"

definition FAILURE_CATEGORIES :: "string list" where
  "FAILURE_CATEGORIES =
     [''SYNTAX'', ''INIT'', ''VALIDATE'', ''PLAN'', ''APPLY'',
      ''CHECKS'', ''IDEMPOTENCY'', ''DESTROY'', ''LOCALSTACK'']"

text \<open>The three assignments that follow each terraform step.\<close>

definition record_step :: "task_runner \<Rightarrow> string \<Rightarrow> int option \<Rightarrow> run_result \<Rightarrow> run_result" where
  "record_step tr step exit_code r =
     r\<lparr>timings := timings r @ [step],
       tool_exit_codes := AList.update step exit_code (tool_exit_codes r),
       logs := AList.update step (logs_dir tr @ ''/terraform_'' @ step @ ''.txt'') (logs r)\<rparr>"

text \<open>\<open>result["failure_category"] = cat; result["pass"] = False; return result\<close>.\<close>

definition fail_with :: "string \<Rightarrow> run_result \<Rightarrow> run_result" where
  "fail_with cat r = r\<lparr>failure_category := Some cat, pass := False\<rparr>"

text \<open>
  \<open>TaskRunner.run\<close>, lines 138-387, in two parts: \<open>run_after_apply\<close> is the code from
  step 6 on (lines 277-387) and \<open>run\<close> the code up to step 5 (lines 144-275). Beside
  the result, the model returns the steps that were executed, in order: the name of
  each terraform step whose command was run, and \<open>checks\<close> for the call of
  \<open>run_checks\<close>. Step 6 (lines 277-286) writes \<open>outputs.json\<close> only when
  \<open>terraform output -json\<close> succeeded, and goes on to the checks either way:
  \<open>checks_env_at\<close> is what \<open>run_checks\<close> then finds.
\<close>

definition checks_env_at :: "world \<Rightarrow> checks_env" where
  "checks_env_at w =
     (case run_terraform ''output'' None (terraform w ''output'') of (success6, output6, exit_code6) \<Rightarrow>
      if success6 then (checks_world w)\<lparr>outputs_json := Some output6\<rparr> else checks_world w)"

definition run_after_apply :: "task_runner \<Rightarrow> world \<Rightarrow> run_result \<Rightarrow> string list \<Rightarrow> run_result \<times> string list" where
  "run_after_apply tr w result5 done5 =
     (let env = checks_env_at w;
          done7 = done5 @ [''output'', ''checks'']
      in case run_checks env (runner_task_id tr) of
           Inl e \<Rightarrow> (fail_with ''CHECKS'' result5, done7)
         | Inr check_res \<Rightarrow>
             (let result7 = result5\<lparr>timings := timings result5 @ [''checks''],
                                    r_check_result := Some check_res\<rparr>
              in if \<not> cr_pass check_res then (fail_with ''CHECKS'' result7, done7)
                 else
                   (case run_terraform ''plan_2'' (Some 120) (terraform w ''plan_2'') of
                      (success8, output8, exit_code8) \<Rightarrow>
                    let result8 = record_step tr ''plan_2'' exit_code8 result7;
                        done8 = done7 @ [''plan_2'']
                    in if \<not> success8 \<and> sublist ''timed out'' (lower output8)
                       then (fail_with ''IDEMPOTENCY'' result8, done8)
                       else if \<not> sublist ''No changes'' output8
                               \<and> \<not> sublist ''0 to add, 0 to change, 0 to destroy'' output8
                       then (fail_with ''IDEMPOTENCY'' result8, done8)
                       else
                         (let result8b = record_step tr ''apply_2'' exit_code8 result8
                          in if \<not> sublist ''No changes'' output8 \<and> \<not> sublist ''Apply complete!'' output8
                             then (fail_with ''IDEMPOTENCY'' result8b, done8)
                             else
                               (case run_terraform ''destroy'' None (terraform w ''destroy'') of
                                  (success9, output9, exit_code9) \<Rightarrow>
                                let result9 = record_step tr ''destroy'' exit_code9 result8b;
                                    done9 = done8 @ [''destroy'']
                                in if \<not> success9 then (fail_with ''DESTROY'' result9, done9)
                                   else (result9\<lparr>pass := True, timings := timings result9 @ [''total'']\<rparr>,
                                         done9))))))"

definition run :: "task_runner \<Rightarrow> world \<Rightarrow> run_result \<times> string list" where
  "run tr w =
     (let result0 = \<lparr>r_model_name = model_name tr, r_task_id = runner_task_id tr,
                     r_run_id = run_id tr, pass = False, failure_category = None, timings = [],
                     tool_exit_codes = [], logs = [], r_check_result = None\<rparr>
      in if \<not> check_localstack w then (fail_with ''LOCALSTACK'' result0, [])
         else
           (case run_terraform ''fmt'' None (terraform w ''fmt'') of (success1, output1, exit_code1) \<Rightarrow>
            let result1 = record_step tr ''fmt'' exit_code1 result0
            in if \<not> success1 then (fail_with ''SYNTAX'' result1, [''fmt''])
               else
           (case run_terraform ''fmt_check'' None (terraform w ''fmt_check'') of (success1b, output1b, exit_code1b) \<Rightarrow>
            let result1b = record_step tr ''fmt_check'' exit_code1b result1
            in if \<not> success1b then (fail_with ''SYNTAX'' result1b, [''fmt'', ''fmt_check''])
               else
           (case run_terraform ''init'' None (terraform w ''init'') of (success2, output2, exit_code2) \<Rightarrow>
            let result2 = record_step tr ''init'' exit_code2 result1b
            in if \<not> success2 then (fail_with ''INIT'' result2, [''fmt'', ''fmt_check'', ''init''])
               else
           (case run_terraform ''validate'' None (terraform w ''validate'') of (success3, output3, exit_code3) \<Rightarrow>
            let result3 = record_step tr ''validate'' exit_code3 result2
            in if \<not> success3
               then (fail_with ''VALIDATE'' result3, [''fmt'', ''fmt_check'', ''init'', ''validate''])
               else
           (case run_terraform ''plan'' None (terraform w ''plan'') of (success4, output4, exit_code4) \<Rightarrow>
            let result4 = record_step tr ''plan'' exit_code4 result3
            in if \<not> success4
               then (fail_with ''PLAN'' result4, [''fmt'', ''fmt_check'', ''init'', ''validate'', ''plan''])
               else
           (case run_terraform ''apply'' None (terraform w ''apply'') of (success5, output5, exit_code5) \<Rightarrow>
            let result5 = record_step tr ''apply'' exit_code5 result4;
                done5 = [''fmt'', ''fmt_check'', ''init'', ''validate'', ''plan'', ''apply'']
            in if \<not> success5 then (fail_with ''APPLY'' result5, done5)
               else run_after_apply tr w result5 done5)))))))"

text \<open>
  The vocabulary of the claims about the pipeline. \<open>stage_order\<close> is the order in
  which \<open>run\<close> goes through its steps. \<open>stage_ok\<close> says that a stage succeeded: a
  terraform step that its command exited with code 0, the checks that \<open>run_checks\<close>
  returned a result with \<open>pass\<close> set. \<open>plan_2_output\<close> is the captured output of the
  second plan, \<open>idempotency_fails\<close> the outcome of the tests of lines 329-358 on it,
  and \<open>stage_continues\<close> says whether \<open>run\<close> goes on after a stage. \<open>run_until\<close>
  cuts a list of stages after the first one that does not continue.
\<close>

definition stage_order :: "string list" where
  "stage_order =
     [''fmt'', ''fmt_check'', ''init'', ''validate'', ''plan'', ''apply'',
      ''output'', ''checks'', ''plan_2'', ''destroy'']"

definition stage_result :: "world \<Rightarrow> string \<Rightarrow> bool \<times> string \<times> int option" where
  "stage_result w s =
     run_terraform s (if s = ''plan_2'' then Some 120 else None) (terraform w s)"

definition checks_pass :: "task_runner \<Rightarrow> world \<Rightarrow> bool" where
  "checks_pass tr w =
     (case run_checks (checks_env_at w) (runner_task_id tr) of
        Inl e \<Rightarrow> False
      | Inr check_res \<Rightarrow> cr_pass check_res)"

definition stage_ok :: "task_runner \<Rightarrow> world \<Rightarrow> string \<Rightarrow> bool" where
  "stage_ok tr w s = (if s = ''checks'' then checks_pass tr w else fst (stage_result w s))"

definition plan_2_output :: "world \<Rightarrow> string" where
  "plan_2_output w = fst (snd (stage_result w ''plan_2''))"

definition idempotency_fails :: "world \<Rightarrow> bool" where
  "idempotency_fails w =
     ((sublist ''timed out'' (lower (plan_2_output w)) \<and> \<not> fst (stage_result w ''plan_2'')) \<or>
      (\<not> sublist ''No changes'' (plan_2_output w) \<and>
       \<not> (sublist ''0 to add, 0 to change, 0 to destroy'' (plan_2_output w) \<and>
          sublist ''Apply complete!'' (plan_2_output w))))"

definition stage_continues :: "task_runner \<Rightarrow> world \<Rightarrow> string \<Rightarrow> bool" where
  "stage_continues tr w s =
     (if s = ''output'' then True
      else if s = ''plan_2'' then \<not> idempotency_fails w
      else stage_ok tr w s)"

fun run_until :: "(string \<Rightarrow> bool) \<Rightarrow> string list \<Rightarrow> string list" where
  "run_until continues [] = []"
| "run_until continues (s # ss) = s # (if continues s then run_until continues ss else [])"

text \<open>
  The specification lists the failure categories under the code's names, except for
  the category of the emulator precondition: its section 4.2 calls it
  \<open>LOCALSTACK\<close>-equivalent and its section 7 lists it as \<open>PRECONDITION\<close>.
  \<open>spec_categories\<close> is the closed set as the specification lists it and
  \<open>spec_category\<close> the specification's name of a category of the code.
\<close>

definition spec_categories :: "string list" where
  "spec_categories =
     [''SYNTAX'', ''INIT'', ''VALIDATE'', ''PLAN'', ''APPLY'',
      ''CHECKS'', ''IDEMPOTENCY'', ''DESTROY'', ''PRECONDITION'']"

definition spec_category :: "string \<Rightarrow> string" where
  "spec_category c = (if c = ''LOCALSTACK'' then ''PRECONDITION'' else c)"

section \<open>Example surroundings\<close>

text \<open>
  Concrete inputs at which the theorems below are instantiated. \<open>ex_ec2\<close> answers
  every query: one VPC, three subnets of which the last lies in another VPC, and
  three instances of which the last sits in a subnet the outputs do not name.
\<close>

definition ex_ec2 :: ec2 where
  "ex_ec2 =
     \<lparr>describe_vpcs = (\<lambda>v. Response [JObj []]),
      describe_subnets = (\<lambda>v t. Response
        [\<lparr>subnet_VpcId = ''vpc-1''\<rparr>, \<lparr>subnet_VpcId = ''vpc-1''\<rparr>, \<lparr>subnet_VpcId = ''vpc-2''\<rparr>]),
      describe_instances = (\<lambda>t v. Response
        [[\<lparr>instance_SubnetId = ''subnet-a''\<rparr>, \<lparr>instance_SubnetId = ''subnet-b''\<rparr>],
         [\<lparr>instance_SubnetId = ''subnet-z''\<rparr>]]),
      describe_security_groups = (\<lambda>g t. ClientError ''InvalidGroup.NotFound'')\<rparr>"

definition ex_outputs :: json where
  "ex_outputs =
     JObj [(''vpc_id'', JObj [(''value'', JStr ''vpc-1'')]),
           (''subnet_ids'', JObj [(''value'', JList [JStr ''subnet-a'', JStr ''subnet-b'', JStr ''subnet-c''])]),
           (''instance_ids'', JObj [(''value'', JList [JStr ''i-1'', JStr ''i-2'', JStr ''i-3''])]),
           (''bucket_id'', JObj [(''value'', JStr ''bucket-1'')])]"

text \<open>The text of that document, as \<open>terraform output -json\<close> prints it.\<close>

definition quoted :: "string \<Rightarrow> string" where
  "quoted s = CHR 0x22 # s @ [CHR 0x22]"

definition ex_outputs_text :: string where
  "ex_outputs_text =
     ''{'' @ quoted ''vpc_id'' @ '': {'' @ quoted ''value'' @ '': '' @ quoted ''vpc-1'' @ ''}, ''
       @ quoted ''subnet_ids'' @ '': {'' @ quoted ''value'' @ '': ['' @ quoted ''subnet-a'' @ '', ''
           @ quoted ''subnet-b'' @ '', '' @ quoted ''subnet-c'' @ '']}, ''
       @ quoted ''instance_ids'' @ '': {'' @ quoted ''value'' @ '': ['' @ quoted ''i-1'' @ '', ''
           @ quoted ''i-2'' @ '', '' @ quoted ''i-3'' @ '']}, ''
       @ quoted ''bucket_id'' @ '': {'' @ quoted ''value'' @ '': '' @ quoted ''bucket-1'' @ ''}}''"

text \<open>
  \<open>ex_s3\<close>: the bucket exists, its versioning is suspended, and the lifecycle query
  fails with an error that is not \<open>NoSuchLifecycleConfiguration\<close>.
\<close>

definition ex_s3 :: s3 where
  "ex_s3 =
     \<lparr>head_bucket = (\<lambda>b. Response ()),
      get_bucket_versioning = (\<lambda>b. Response (Some ''Suspended'')),
      get_bucket_lifecycle_configuration = (\<lambda>b. ClientError
        ''An error occurred (InternalError) when calling the GetBucketLifecycleConfiguration operation''),
      get_public_access_block = (\<lambda>b. Response None),
      get_bucket_policy = (\<lambda>b. Response None),
      get_bucket_cors = (\<lambda>b. Response None)\<rparr>"

text \<open>
  \<open>ex_env\<close>: every task has a \<open>spec.yaml\<close> that declares no checks, there is no
  \<open>outputs.json\<close> yet, and \<open>json.loads\<close> is given on the one document above.
\<close>

definition ex_env :: checks_env where
  "ex_env =
     \<lparr>spec_file = (\<lambda>t. Some []),
      outputs_json = None,
      json_loads = (\<lambda>txt. if txt = ex_outputs_text then Some ex_outputs else None),
      env_ec2 = ex_ec2,
      env_s3 = ex_s3,
      other_checker = (\<lambda>t outputs expected_checks. Inr chk_init)\<rparr>"

text \<open>
  \<open>ex_world procs\<close>: LocalStack is up and every terraform step exits with code 0,
  \<open>output\<close> printing the document above, \<open>plan_2\<close> printing that nothing changes and
  the others printing nothing, except the steps listed in \<open>procs\<close>.
\<close>

definition ex_proc :: "string \<Rightarrow> proc" where
  "ex_proc s =
     (if s = ''output'' then Exited 0 ex_outputs_text
      else if s = ''plan_2''
      then Exited 0 ''No changes. Your infrastructure matches the configuration.''
      else Exited 0 [])"

definition ex_world :: "(string \<times> proc) list \<Rightarrow> world" where
  "ex_world procs =
     \<lparr>check_localstack = True,
      terraform = (\<lambda>s. case map_of procs s of None \<Rightarrow> ex_proc s | Some p \<Rightarrow> p),
      checks_world = ex_env\<rparr>"

definition ex_runner :: "string \<Rightarrow> task_runner" where
  "ex_runner task_id =
     \<lparr>model_name = ''model'', runner_task_id = task_id, run_id = ''run1'',
      logs_dir = ''results/model/task/run1/logs''\<rparr>"

section \<open>Properties of the checkers\<close>

lemma str_nat_digit: "n < 10 \<Longrightarrow> str_nat n = [digit_char n]"
  by (simp add: str_nat.simps)

lemma vpc3_subnets_wiring:
  "wiring (vpc3_subnets ec2_client v task_id expected_checks c) =
     (case describe_subnets ec2_client v task_id of
        Response subnets \<Rightarrow> AList.update ''subnets_in_vpc'' True (wiring c)
      | ClientError e \<Rightarrow> wiring c)"
proof -
  have fold_w: "wiring (fold (\<lambda>subnet c'. if subnet_VpcId subnet \<noteq> v
                            then c'\<lparr>pass_check := False,
                                    errors := errors c' @ [''Subnet wiring error: subnet not in expected VPC'']\<rparr>
                            else c') subnets c2) = wiring c2" for subnets c2
    by (induction subnets arbitrary: c2) auto
  show ?thesis
    by (simp add: vpc3_subnets_def Let_def fold_w split: response.splits)
qed

lemma vpc3_instances_wiring:
  "vpc3_instances ec2_client v task_id subnet_ids expected_checks c = Inr c' \<Longrightarrow>
   wiring c' =
     (case describe_instances ec2_client task_id v of
        Response rs \<Rightarrow> AList.update ''instances_in_subnets'' True (wiring c)
      | ClientError e \<Rightarrow> wiring c)"
  by (auto simp: vpc3_instances_def Let_def split: response.splits sum.splits if_splits)

lemma ex_vpc3:
  "check_vpc_3subnets_3ec2 ex_ec2 ex_outputs ''task_vpc_3subnets_3ec2'' [] =
     Inr \<lparr>pass_check = False,
          errors = [''Subnet wiring error: subnet not in expected VPC'',
                    ''Instance wiring error: instance in unexpected subnet''],
          counts = [(''vpc'', 1), (''subnet'', 3), (''instance'', 3)],
          wiring = [(''subnets_in_vpc'', True), (''instances_in_subnets'', True)],
          details = [(''vpc_id'', JStr ''vpc-1''),
                     (''subnet_ids'', JList [JStr ''subnet-a'', JStr ''subnet-b'', JStr ''subnet-c'']),
                     (''instance_ids'', JList [JStr ''i-1'', JStr ''i-2'', JStr ''i-3''])]\<rparr>"
  by (simp add: check_vpc_3subnets_3ec2_def ex_ec2_def ex_outputs_def output_value_def
        vpc3_subnets_def vpc3_instances_def get_expected_def chk_init_def Let_def)

text \<open>
  C10. In the checker for the VPC with three subnets and three instances, no returned
  result has \<open>subnets_in_vpc\<close> or \<open>instances_in_subnets\<close> set to false; and whenever
  the VPC, subnet and instance queries succeed, the returned wiring map is exactly
  those two entries, both true, whatever the subnets and instances look like.
\<close>

theorem vpc3_wiring_never_false:
  assumes "check_vpc_3subnets_3ec2 ec2_client outputs task_id expected_checks = Inr c"
  shows "(map_of (wiring c) ''subnets_in_vpc'' \<noteq> Some False \<and>
          map_of (wiring c) ''instances_in_subnets'' \<noteq> Some False) \<and>
         (output_value outputs ''vpc_id'' JNull = Inr (JStr v) \<and> v \<noteq> [] \<and> v \<noteq> ''null'' \<and>
          describe_vpcs ec2_client v = Response vpcs \<and>
          describe_subnets ec2_client v task_id = Response subnets \<and>
          describe_instances ec2_client task_id v = Response reservations \<longrightarrow>
          wiring c = [(''subnets_in_vpc'', True), (''instances_in_subnets'', True)])"
  using assms
  by (auto simp: check_vpc_3subnets_3ec2_def Let_def chk_abort_def chk_init_def
        vpc3_subnets_wiring update_conv
      dest!: vpc3_instances_wiring
      split: sum.splits if_splits json.splits response.splits)

text \<open>
  The witness: a subnet outside the VPC and an instance in an unexpected subnet are
  both recorded as errors, and both wiring entries are true.
\<close>

theorem vpc3_wiring_never_false_witness:
  "\<exists>c. check_vpc_3subnets_3ec2 ex_ec2 ex_outputs ''task_vpc_3subnets_3ec2'' [] = Inr c \<and>
       errors c = [''Subnet wiring error: subnet not in expected VPC'',
                   ''Instance wiring error: instance in unexpected subnet''] \<and>
       pass_check c = False \<and>
       map_of (wiring c) ''subnets_in_vpc'' \<noteq> Some False \<and>
       map_of (wiring c) ''instances_in_subnets'' \<noteq> Some False \<and>
       wiring c = [(''subnets_in_vpc'', True), (''instances_in_subnets'', True)]"
  using vpc3_wiring_never_false [OF ex_vpc3, of "''vpc-1''"]
  by (simp add: ex_vpc3)




















text \<open>The S3 checker: a section that returns keeps the errors found before it.\<close>

lemma s3_lifecycle_keeps:
  "s3_lifecycle s3_client b expected_checks c = Inr c' \<Longrightarrow>
   (\<not> pass_check c \<longrightarrow> \<not> pass_check c') \<and> set (errors c) \<subseteq> set (errors c')"
  by (auto simp: s3_lifecycle_def log_warn_def Let_def split: if_splits response.splits)

lemma s3_public_access_block_keeps:
  "s3_public_access_block s3_client b expected_checks c = Inr c' \<Longrightarrow>
   (\<not> pass_check c \<longrightarrow> \<not> pass_check c') \<and> set (errors c) \<subseteq> set (errors c')"
  by (auto simp: s3_public_access_block_def log_warn_def Let_def split: if_splits response.splits)

lemma s3_bucket_policy_keeps:
  "s3_bucket_policy s3_client b expected_checks c = Inr c' \<Longrightarrow>
   (\<not> pass_check c \<longrightarrow> \<not> pass_check c') \<and> set (errors c) \<subseteq> set (errors c')"
  by (auto simp: s3_bucket_policy_def log_warn_def Let_def split: if_splits response.splits)

lemma s3_cors_keeps:
  "s3_cors s3_client b expected_checks c = Inr c' \<Longrightarrow>
   (\<not> pass_check c \<longrightarrow> \<not> pass_check c') \<and> set (errors c) \<subseteq> set (errors c')"
  by (auto simp: s3_cors_def log_warn_def Let_def split: if_splits response.splits)

lemma and_then_Inr:
  "and_then m f = Inr y \<Longrightarrow> \<exists>x. m = Inr x \<and> f x = Inr y"
  by (simp add: and_then_def split: sum.splits)

lemma s3_versioning_suspended:
  assumes "expects expected_checks ''versioning_enabled''"
    and "get_bucket_versioning s3_client b = Response (Some ''Suspended'')"
  shows "\<exists>c1. s3_versioning s3_client b expected_checks c = Inr c1 \<and> \<not> pass_check c1 \<and>
           ''Versioning not enabled: Suspended'' \<in> set (errors c1)"
  using assms by (simp add: s3_versioning_def Let_def)

lemma s3_sections_keep:
  assumes "and_then (s3_lifecycle s3_client b expected_checks c1)
             (\<lambda>c2. and_then (s3_public_access_block s3_client b expected_checks c2)
             (\<lambda>c3. and_then (s3_bucket_policy s3_client b expected_checks c3)
             (\<lambda>c4. s3_cors s3_client b expected_checks c4))) = Inr c"
  shows "(\<not> pass_check c1 \<longrightarrow> \<not> pass_check c) \<and> set (errors c1) \<subseteq> set (errors c)"
proof -
  from and_then_Inr [OF assms] obtain c2 where
    l: "s3_lifecycle s3_client b expected_checks c1 = Inr c2" and
    r2: "and_then (s3_public_access_block s3_client b expected_checks c2)
             (\<lambda>c3. and_then (s3_bucket_policy s3_client b expected_checks c3)
             (\<lambda>c4. s3_cors s3_client b expected_checks c4)) = Inr c"
    by blast
  from and_then_Inr [OF r2] obtain c3 where
    p: "s3_public_access_block s3_client b expected_checks c2 = Inr c3" and
    r3: "and_then (s3_bucket_policy s3_client b expected_checks c3)
             (\<lambda>c4. s3_cors s3_client b expected_checks c4) = Inr c"
    by blast
  from and_then_Inr [OF r3] obtain c4 where
    q: "s3_bucket_policy s3_client b expected_checks c3 = Inr c4" and
    r4: "s3_cors s3_client b expected_checks c4 = Inr c"
    by blast
  from s3_lifecycle_keeps [OF l] s3_public_access_block_keeps [OF p]
    s3_bucket_policy_keeps [OF q] s3_cors_keeps [OF r4]
  show ?thesis
    by blast
qed

lemma check_s3_tasks_returns:
  assumes "output_value outputs ''bucket_id'' JNull = Inr (JStr b)" and "b \<noteq> []"
    and "head_bucket s3_client b = Response u"
    and "check_s3_tasks s3_client outputs task_id expected_checks = Inr c"
  shows "\<exists>c0. and_then (s3_versioning s3_client b expected_checks c0)
                       (\<lambda>c1. and_then (s3_lifecycle s3_client b expected_checks c1)
                       (\<lambda>c2. and_then (s3_public_access_block s3_client b expected_checks c2)
                       (\<lambda>c3. and_then (s3_bucket_policy s3_client b expected_checks c3)
                       (\<lambda>c4. s3_cors s3_client b expected_checks c4)))) = Inr c"
  using assms
  apply (simp add: check_s3_tasks_def Let_def split: sum.splits)
  apply (rule exI, assumption)
  done

lemma check_s3_tasks_sections:
  assumes "output_value outputs ''bucket_id'' JNull = Inr (JStr b)" and "b \<noteq> []"
    and "head_bucket s3_client b = Response u"
    and "output_value outputs ''bucket_arn'' JNull = Inr arn"
  shows "check_s3_tasks s3_client outputs task_id expected_checks =
           and_then (s3_versioning s3_client b expected_checks
                       (chk_init\<lparr>details := [(''bucket_id'', JStr b), (''bucket_arn'', arn)],
                                 counts := [(''bucket'', 1)]\<rparr>))
                       (\<lambda>c1. and_then (s3_lifecycle s3_client b expected_checks c1)
                       (\<lambda>c2. and_then (s3_public_access_block s3_client b expected_checks c2)
                       (\<lambda>c3. and_then (s3_bucket_policy s3_client b expected_checks c3)
                       (\<lambda>c4. s3_cors s3_client b expected_checks c4))))"
  using assms
  by (simp add: check_s3_tasks_def Let_def chk_init_def)

lemma s3_lifecycle_raises:
  assumes "expects expected_checks ''lifecycle_rule_count''"
    and "get_bucket_lifecycle_configuration s3_client b = ClientError e"
    and "\<not> sublist ''NoSuchLifecycleConfiguration'' e"
  shows "s3_lifecycle s3_client b expected_checks c = Inl (NameError ''log_warn'')"
  using assms by (simp add: s3_lifecycle_def log_warn_def)

text \<open>
  C9. Take an S3 verification input where the bucket exists, the versioning query
  answers \<open>Suspended\<close> and the expected checks declare \<open>versioning_enabled\<close> true.
  Whenever the checker returns a result, its \<open>pass\<close> is false and its errors hold
  \<open>Versioning not enabled: Suspended\<close>. But the checker does not always return: when
  the expected checks also declare a lifecycle rule count and the lifecycle query fails
  with an error other than \<open>NoSuchLifecycleConfiguration\<close>, line 297 calls
  \<open>log_warn\<close>, which \<open>checks.py\<close> does not import, and the checker raises
  \<open>NameError\<close> instead of returning.
\<close>

theorem s3_versioning_suspended_checked:
  assumes "output_value outputs ''bucket_id'' JNull = Inr (JStr b)" and "b \<noteq> []"
    and "head_bucket s3_client b = Response u"
    and "get_bucket_versioning s3_client b = Response (Some ''Suspended'')"
    and "map_of expected_checks ''versioning_enabled'' = Some (EFlag True)"
  shows "(check_s3_tasks s3_client outputs task_id expected_checks = Inr c \<longrightarrow>
            \<not> pass_check c \<and> ''Versioning not enabled: Suspended'' \<in> set (errors c)) \<and>
         (output_value outputs ''bucket_arn'' JNull = Inr arn \<and>
          expects expected_checks ''lifecycle_rule_count'' \<and>
          get_bucket_lifecycle_configuration s3_client b = ClientError e \<and>
          \<not> sublist ''NoSuchLifecycleConfiguration'' e \<longrightarrow>
            check_s3_tasks s3_client outputs task_id expected_checks = Inl (NameError ''log_warn''))"
proof (intro conjI impI)
  have ex: "expects expected_checks ''versioning_enabled''"
    using assms(5) by (simp add: expects_def)
  {
    assume ret: "check_s3_tasks s3_client outputs task_id expected_checks = Inr c"
    from check_s3_tasks_returns [OF assms(1-3) ret] obtain c0 where
      a: "and_then (s3_versioning s3_client b expected_checks c0)
                       (\<lambda>c1. and_then (s3_lifecycle s3_client b expected_checks c1)
                       (\<lambda>c2. and_then (s3_public_access_block s3_client b expected_checks c2)
                       (\<lambda>c3. and_then (s3_bucket_policy s3_client b expected_checks c3)
                       (\<lambda>c4. s3_cors s3_client b expected_checks c4)))) = Inr c"
      by blast
    from s3_versioning_suspended [OF ex assms(4), of c0] obtain c1 where
      v: "s3_versioning s3_client b expected_checks c0 = Inr c1" and
      c1: "\<not> pass_check c1" "''Versioning not enabled: Suspended'' \<in> set (errors c1)"
      by blast
    from a v have "and_then (s3_lifecycle s3_client b expected_checks c1)
                       (\<lambda>c2. and_then (s3_public_access_block s3_client b expected_checks c2)
                       (\<lambda>c3. and_then (s3_bucket_policy s3_client b expected_checks c3)
                       (\<lambda>c4. s3_cors s3_client b expected_checks c4))) = Inr c"
      by (simp add: and_then_def)
    from s3_sections_keep [OF this] c1
    have r: "\<not> pass_check c \<and> ''Versioning not enabled: Suspended'' \<in> set (errors c)"
      by blast
    from r show "\<not> pass_check c" by simp
    from r show "''Versioning not enabled: Suspended'' \<in> set (errors c)" by simp
  }
  assume l: "output_value outputs ''bucket_arn'' JNull = Inr arn \<and>
          expects expected_checks ''lifecycle_rule_count'' \<and>
          get_bucket_lifecycle_configuration s3_client b = ClientError e \<and>
          \<not> sublist ''NoSuchLifecycleConfiguration'' e"
  then have arn: "output_value outputs ''bucket_arn'' JNull = Inr arn" by simp
  from s3_versioning_suspended [OF ex assms(4)] obtain c1 where
    v: "s3_versioning s3_client b expected_checks
          (chk_init\<lparr>details := [(''bucket_id'', JStr b), (''bucket_arn'', arn)],
                    counts := [(''bucket'', 1)]\<rparr>) = Inr c1"
    by blast
  from l have "s3_lifecycle s3_client b expected_checks c1 = Inl (NameError ''log_warn'')"
    by (simp add: s3_lifecycle_raises)
  with v show "check_s3_tasks s3_client outputs task_id expected_checks = Inl (NameError ''log_warn'')"
    by (simp add: check_s3_tasks_sections [OF assms(1-3) arn] and_then_def)
qed

lemma ex_bucket_id: "output_value ex_outputs ''bucket_id'' JNull = Inr (JStr ''bucket-1'')"
  by (simp add: ex_outputs_def output_value_def)

lemma ex_s3_versioning_only:
  "check_s3_tasks ex_s3 ex_outputs ''task_s3_versioning'' [(''versioning_enabled'', EFlag True)] =
     Inr \<lparr>pass_check = False, errors = [''Versioning not enabled: Suspended''],
          counts = [(''bucket'', 1)], wiring = [],
          details = [(''bucket_id'', JStr ''bucket-1''), (''bucket_arn'', JNull),
                     (''versioning_status'', JStr ''Suspended'')]\<rparr>"
  by (simp add: check_s3_tasks_def ex_s3_def ex_outputs_def output_value_def chk_init_def Let_def
        and_then_def s3_versioning_def s3_lifecycle_def s3_public_access_block_def
        s3_bucket_policy_def s3_cors_def expects_def)

lemma ex_s3_lifecycle_error:
  "\<not> sublist ''NoSuchLifecycleConfiguration''
      ''An error occurred (InternalError) when calling the GetBucketLifecycleConfiguration operation''"
  by code_simp

text \<open>The witness: only the versioning is declared, and the checker returns.\<close>

theorem s3_versioning_suspended_checked_witness:
  "output_value ex_outputs ''bucket_id'' JNull = Inr (JStr ''bucket-1'') \<and>
   head_bucket ex_s3 ''bucket-1'' = Response () \<and>
   get_bucket_versioning ex_s3 ''bucket-1'' = Response (Some ''Suspended'') \<and>
   (\<exists>c. check_s3_tasks ex_s3 ex_outputs ''task_s3_versioning'' [(''versioning_enabled'', EFlag True)]
          = Inr c \<and>
        \<not> pass_check c \<and> ''Versioning not enabled: Suspended'' \<in> set (errors c))"
  using s3_versioning_suspended_checked [OF ex_bucket_id, of ex_s3 "()"
      "[(''versioning_enabled'', EFlag True)]" "''task_s3_versioning''"]
  by (simp add: ex_s3_versioning_only ex_bucket_id) (simp add: ex_s3_def)

text \<open>
  The failing input: the same bucket, with a lifecycle rule count declared and a
  lifecycle query that fails with an internal error.
\<close>

theorem s3_versioning_suspended_failing_input:
  "output_value ex_outputs ''bucket_id'' JNull = Inr (JStr ''bucket-1'') \<and>
   head_bucket ex_s3 ''bucket-1'' = Response () \<and>
   get_bucket_versioning ex_s3 ''bucket-1'' = Response (Some ''Suspended'') \<and>
   check_s3_tasks ex_s3 ex_outputs ''task_s3_versioning''
     [(''versioning_enabled'', EFlag True), (''lifecycle_rule_count'', ECount 1)]
     = Inl (NameError ''log_warn'')"
  by (simp add: ex_bucket_id check_s3_tasks_def ex_s3_def ex_outputs_def output_value_def
        chk_init_def Let_def and_then_def s3_versioning_def s3_lifecycle_def expects_def
        ex_s3_lifecycle_error log_warn_def)

text \<open>
  C3. For a task identifier that matches none of the dispatch branches, with the
  task's \<open>spec.yaml\<close> and a parseable \<open>outputs.json\<close> present, \<open>run_checks\<close> does not
  reach the generic check: line 120 calls \<open>log_warn\<close>, which \<open>checks.py\<close> does not
  import (line 10), and \<open>run_checks\<close> raises \<open>NameError\<close>, whatever the outputs are.
\<close>

theorem run_checks_unrecognised_raises:
  assumes "task_id \<notin> set [''task_vpc_3subnets_3ec2'', ''task_security_group_complex'',
             ''task_iam_role_policy'', ''task_vpc_internet_gateway'', ''task_vpc_nat_gateway'',
             ''task_ec2_instance_profile'', ''task_vpc_multiple_route_tables'']"
    and "\<not> prefix ''task_s3'' task_id"
    and "spec_file env task_id = Some expected_checks"
    and "outputs_json env = Some txt"
    and "json_loads env txt = Some outputs"
  shows "run_checks env task_id = Inl (NameError ''log_warn'')"
  using assms
  by (simp add: run_checks_def route_checks_def and_then_def log_warn_def)

lemma ex_run_unrecognised:
  "failure_category (fst (run (ex_runner ''task_other'') (ex_world []))) = Some ''CHECKS''"
  "r_check_result (fst (run (ex_runner ''task_other'') (ex_world []))) = None"
  by code_simp+

text \<open>
  The failing input: the task \<open>task_other\<close> with non-empty outputs. \<open>run_checks\<close>
  raises, and the run that calls it ends with category \<open>CHECKS\<close> and records no
  check result.
\<close>

theorem run_checks_unrecognised_raises_witness:
  "truthy ex_outputs \<and>
   run_checks (ex_env\<lparr>outputs_json := Some ex_outputs_text\<rparr>) ''task_other''
     = Inl (NameError ''log_warn'') \<and>
   failure_category (fst (run (ex_runner ''task_other'') (ex_world []))) = Some ''CHECKS'' \<and>
   r_check_result (fst (run (ex_runner ''task_other'') (ex_world []))) = None"
  using run_checks_unrecognised_raises [of "''task_other''" "ex_env\<lparr>outputs_json := Some ex_outputs_text\<rparr>"
      "[]" ex_outputs_text ex_outputs]
  by (simp add: ex_run_unrecognised) (simp add: ex_env_def ex_outputs_def)

section \<open>Properties of the pipeline\<close>

lemma fail_with_fields [simp]:
  "pass (fail_with c r) = False"
  "failure_category (fail_with c r) = Some c"
  by (simp_all add: fail_with_def)

lemma record_step_fields [simp]:
  "pass (record_step tr s e r) = pass r"
  "failure_category (record_step tr s e r) = failure_category r"
  by (simp_all add: record_step_def)

text \<open>
  The steps that a run executes, and the steps whose exit codes it records. From the
  checks on, both depend only on whether the checks pass and on the tests on the
  second plan's output.
\<close>

lemma snd_run_after_apply:
  "snd (run_after_apply tr w r5 d) =
     d @ [''output'', ''checks''] @
       (if checks_pass tr w
        then ''plan_2'' # (if idempotency_fails w then [] else [''destroy''])
        else [])"
  by (auto simp: run_after_apply_def Let_def checks_pass_def idempotency_fails_def
        plan_2_output_def stage_result_def split: sum.splits prod.splits)

lemma run_trace:
  "snd (run tr w) =
     (if check_localstack w then run_until (stage_continues tr w) stage_order else [])"
  unfolding run_def Let_def
  by (simp add: snd_run_after_apply stage_order_def stage_continues_def stage_ok_def
        stage_result_def split: prod.splits)

lemma record_step_keys:
  "map fst (tool_exit_codes (record_step tr s e r)) =
     (if s \<in> set (map fst (tool_exit_codes r)) then map fst (tool_exit_codes r)
      else map fst (tool_exit_codes r) @ [s])"
  by (simp add: record_step_def update_keys)

lemma fail_with_keys:
  "tool_exit_codes (fail_with c r) = tool_exit_codes r"
  by (simp add: fail_with_def)

lemma keys_run_after_apply:
  assumes "map fst (tool_exit_codes r5) = [''fmt'', ''fmt_check'', ''init'', ''validate'', ''plan'', ''apply'']"
  shows "filter (\<lambda>s. s \<noteq> ''apply_2'') (map fst (tool_exit_codes (fst (run_after_apply tr w r5 d)))) =
     [''fmt'', ''fmt_check'', ''init'', ''validate'', ''plan'', ''apply''] @
       (if checks_pass tr w
        then ''plan_2'' # (if idempotency_fails w then [] else [''destroy''])
        else [])"
  using assms
  by (simp add: run_after_apply_def Let_def checks_pass_def idempotency_fails_def
        plan_2_output_def stage_result_def record_step_keys fail_with_keys
        split: sum.splits prod.splits)

lemma run_keys:
  "filter (\<lambda>s. s \<noteq> ''apply_2'') (map fst (tool_exit_codes (fst (run tr w)))) =
     filter (\<lambda>s. s \<noteq> ''output'' \<and> s \<noteq> ''checks'') (snd (run tr w))"
proof -
  have k: "map fst (tool_exit_codes
      (record_step tr ''apply'' e5 (record_step tr ''plan'' e4 (record_step tr ''validate'' e3
        (record_step tr ''init'' e2 (record_step tr ''fmt_check'' e1b (record_step tr ''fmt'' e1
           \<lparr>r_model_name = model_name tr, r_task_id = runner_task_id tr,
              r_run_id = run_id tr, pass = False, failure_category = None, timings = [],
              tool_exit_codes = [], logs = [], r_check_result = None\<rparr>))))))) =
      [''fmt'', ''fmt_check'', ''init'', ''validate'', ''plan'', ''apply'']"
    for e1 e1b e2 e3 e4 e5
    by (simp add: record_step_keys)
  note raa = keys_run_after_apply [OF k]
  show ?thesis
    unfolding run_def Let_def
    by (simp add: raa snd_run_after_apply record_step_keys fail_with_keys split: prod.splits)
qed

lemma run_reaches_checks:
  "''checks'' \<in> set (snd (run tr w)) \<Longrightarrow>
   run tr w = run_after_apply tr w
     (record_step tr ''apply'' (snd (snd (stage_result w ''apply'')))
       (record_step tr ''plan'' (snd (snd (stage_result w ''plan'')))
         (record_step tr ''validate'' (snd (snd (stage_result w ''validate'')))
           (record_step tr ''init'' (snd (snd (stage_result w ''init'')))
             (record_step tr ''fmt_check'' (snd (snd (stage_result w ''fmt_check'')))
               (record_step tr ''fmt'' (snd (snd (stage_result w ''fmt'')))
                  \<lparr>r_model_name = model_name tr, r_task_id = runner_task_id tr,
                     r_run_id = run_id tr, pass = False, failure_category = None, timings = [],
                     tool_exit_codes = [], logs = [], r_check_result = None\<rparr>))))))
     [''fmt'', ''fmt_check'', ''init'', ''validate'', ''plan'', ''apply'']"
  unfolding run_def Let_def
  by (simp add: stage_result_def split: prod.splits if_splits)

lemma run_after_apply_checks_fail:
  "\<not> checks_pass tr w \<Longrightarrow>
   failure_category (fst (run_after_apply tr w r5 d)) = Some ''CHECKS'' \<and>
   \<not> pass (fst (run_after_apply tr w r5 d))"
  by (auto simp: run_after_apply_def Let_def checks_pass_def split: sum.splits)





text \<open>Runs of the example surroundings.\<close>

lemma ex_run_checks_fail:
  "''checks'' \<in> set (snd (run (ex_runner ''task_vpc_3subnets_3ec2'') (ex_world [])))"
  "\<not> checks_pass (ex_runner ''task_vpc_3subnets_3ec2'') (ex_world [])"
  by code_simp+

lemma ex_run_checks_raise:
  "''checks'' \<in> set (snd (run (ex_runner ''task_other'') (ex_world [])))"
  "run_checks (checks_env_at (ex_world [])) ''task_other'' = Inl (NameError ''log_warn'')"
  by code_simp+





lemma run_after_apply_category:
  assumes "failure_category r5 = None"
  shows "(\<not> pass (fst (run_after_apply tr w r5 d)) \<longrightarrow>
            (\<exists>c. failure_category (fst (run_after_apply tr w r5 d)) = Some c \<and> c \<in> set FAILURE_CATEGORIES)) \<and>
         (pass (fst (run_after_apply tr w r5 d)) \<longrightarrow> failure_category (fst (run_after_apply tr w r5 d)) = None)"
  using assms
  by (simp add: run_after_apply_def Let_def FAILURE_CATEGORIES_def split: sum.splits prod.splits)

lemma run_after_apply_not_localstack:
  assumes "failure_category r5 = None"
  shows "(failure_category (fst (run_after_apply tr w r5 d)) = Some ''LOCALSTACK'') = False"
  using assms
  by (simp add: run_after_apply_def Let_def split: sum.splits prod.splits)

lemma failure_category_steps:
  "failure_category (record_step tr s5 e5 (record_step tr s4 e4 (record_step tr s3 e3
          (record_step tr s2 e2 (record_step tr s1b e1b (record_step tr s1 e1
            \<lparr>r_model_name = model_name tr, r_task_id = runner_task_id tr,
                     r_run_id = run_id tr, pass = False, failure_category = None, timings = [],
                     tool_exit_codes = [], logs = [], r_check_result = None\<rparr>)))))) = None"
  by simp

lemma run_category_member:
  "(\<not> pass (fst (run tr w)) \<longrightarrow>
      (\<exists>c. failure_category (fst (run tr w)) = Some c \<and> c \<in> set FAILURE_CATEGORIES)) \<and>
   (pass (fst (run tr w)) \<longrightarrow> failure_category (fst (run tr w)) = None)"
proof -
  note raa = run_after_apply_category [OF failure_category_steps]
  have cats: "''LOCALSTACK'' \<in> set FAILURE_CATEGORIES" "''SYNTAX'' \<in> set FAILURE_CATEGORIES"
    "''INIT'' \<in> set FAILURE_CATEGORIES" "''VALIDATE'' \<in> set FAILURE_CATEGORIES"
    "''PLAN'' \<in> set FAILURE_CATEGORIES" "''APPLY'' \<in> set FAILURE_CATEGORIES"
    by (simp_all add: FAILURE_CATEGORIES_def)
  show ?thesis
    unfolding run_def Let_def
    by (simp add: cats raa split: prod.splits)
qed

lemma run_localstack_iff:
  "(failure_category (fst (run tr w)) = Some ''LOCALSTACK'') = (\<not> check_localstack w)"
  unfolding run_def Let_def
  by (simp add: run_after_apply_not_localstack [OF failure_category_steps] split: prod.splits)

lemma spec_category_member:
  "c \<in> set FAILURE_CATEGORIES \<Longrightarrow> spec_category c \<in> set spec_categories"
  by (auto simp: FAILURE_CATEGORIES_def spec_categories_def spec_category_def)

lemma ex_run_localstack_down:
  "fst (run (ex_runner ''task_x'') ((ex_world [])\<lparr>check_localstack := False\<rparr>)) =
     \<lparr>r_model_name = ''model'', r_task_id = ''task_x'', r_run_id = ''run1'', pass = False,
      failure_category = Some ''LOCALSTACK'', timings = [], tool_exit_codes = [], logs = [],
      r_check_result = None\<rparr>"
  by (simp add: run_def ex_runner_def ex_world_def fail_with_def)

text \<open>
  C6. A finished run whose \<open>pass\<close> is false carries one failure category, a member
  of \<open>FAILURE_CATEGORIES\<close>, whose name in the specification belongs to the closed set
  that the specification lists; a run whose \<open>pass\<close> is true carries none. The
  category of the emulator precondition, \<open>LOCALSTACK\<close> in the code and
  \<open>PRECONDITION\<close> in the specification's list, is set exactly when LocalStack does
  not answer, and then the run fails before any step is executed.
\<close>

theorem run_failure_category:
  "(\<not> pass (fst (run tr w)) \<longrightarrow>
      (\<exists>c. failure_category (fst (run tr w)) = Some c \<and> c \<in> set FAILURE_CATEGORIES \<and>
           spec_category c \<in> set spec_categories)) \<and>
   (pass (fst (run tr w)) \<longrightarrow> failure_category (fst (run tr w)) = None) \<and>
   ((failure_category (fst (run tr w)) = Some ''LOCALSTACK'') = (\<not> check_localstack w)) \<and>
   (\<not> check_localstack w \<longrightarrow> \<not> pass (fst (run tr w)) \<and> snd (run tr w) = [])"
proof -
  have t: "snd (run tr w) = []" if "\<not> check_localstack w"
    using that by (simp add: run_trace)
  have p: "\<not> pass (fst (run tr w))" if "\<not> check_localstack w"
  proof
    assume "pass (fst (run tr w))"
    with run_category_member [of tr w] have "failure_category (fst (run tr w)) = None"
      by blast
    with run_localstack_iff [of tr w] that show False
      by simp
  qed
  from run_category_member [of tr w] run_localstack_iff [of tr w] t p spec_category_member
  show ?thesis
    by blast
qed

text \<open>
  The witness: a run against an unreachable LocalStack fails with the code's category
  \<open>LOCALSTACK\<close>, which the specification lists as \<open>PRECONDITION\<close>.
\<close>

theorem run_failure_category_witness:
  "\<not> check_localstack ((ex_world [])\<lparr>check_localstack := False\<rparr>) \<and>
   \<not> pass (fst (run (ex_runner ''task_x'') ((ex_world [])\<lparr>check_localstack := False\<rparr>))) \<and>
   failure_category (fst (run (ex_runner ''task_x'') ((ex_world [])\<lparr>check_localstack := False\<rparr>)))
     = Some ''LOCALSTACK'' \<and>
   spec_category ''LOCALSTACK'' = ''PRECONDITION'' \<and>
   spec_category ''LOCALSTACK'' \<in> set spec_categories \<and>
   snd (run (ex_runner ''task_x'') ((ex_world [])\<lparr>check_localstack := False\<rparr>)) = []"
  using run_failure_category [of "ex_runner ''task_x''" "(ex_world [])\<lparr>check_localstack := False\<rparr>"]
  by (simp add: spec_category_def spec_categories_def)

text \<open>
  C4. Whenever a run reaches the post-apply verification and \<open>run_checks\<close> raises or
  returns a result whose \<open>pass\<close> is not set, the run ends with \<open>pass\<close> false and
  failure category \<open>CHECKS\<close>, and neither the second plan nor \<open>terraform destroy\<close> is
  executed or recorded: the executed steps end with the checks, and the recorded exit
  codes are those of the six steps up to \<open>apply\<close>.
\<close>

theorem checks_failure_skips_destroy:
  assumes "''checks'' \<in> set (snd (run tr w))" and "\<not> checks_pass tr w"
  shows "failure_category (fst (run tr w)) = Some ''CHECKS'' \<and> \<not> pass (fst (run tr w)) \<and>
         ''plan_2'' \<notin> set (snd (run tr w)) \<and> ''destroy'' \<notin> set (snd (run tr w)) \<and>
         ''destroy'' \<notin> set (map fst (tool_exit_codes (fst (run tr w)))) \<and>
         snd (run tr w) =
           [''fmt'', ''fmt_check'', ''init'', ''validate'', ''plan'', ''apply'', ''output'', ''checks'']"
proof -
  have t: "snd (run tr w) =
      [''fmt'', ''fmt_check'', ''init'', ''validate'', ''plan'', ''apply'', ''output'', ''checks'']"
    using assms run_reaches_checks [OF assms(1)] by (simp add: snd_run_after_apply)
  have c: "failure_category (fst (run tr w)) = Some ''CHECKS'' \<and> \<not> pass (fst (run tr w))"
    using run_after_apply_checks_fail [OF assms(2)] by (simp add: run_reaches_checks [OF assms(1)])
  have "''destroy'' \<notin> set (filter (\<lambda>s. s \<noteq> ''apply_2'') (map fst (tool_exit_codes (fst (run tr w)))))"
    unfolding run_keys t by simp
  then have k: "''destroy'' \<notin> set (map fst (tool_exit_codes (fst (run tr w))))"
    by simp
  from t c k show ?thesis by simp
qed

text \<open>
  The witness: the checker of \<open>task_vpc_3subnets_3ec2\<close> returns a failing result in
  the example surroundings.
\<close>

theorem checks_failure_skips_destroy_witness:
  "''checks'' \<in> set (snd (run (ex_runner ''task_vpc_3subnets_3ec2'') (ex_world []))) \<and>
   \<not> checks_pass (ex_runner ''task_vpc_3subnets_3ec2'') (ex_world []) \<and>
   failure_category (fst (run (ex_runner ''task_vpc_3subnets_3ec2'') (ex_world []))) = Some ''CHECKS'' \<and>
   \<not> pass (fst (run (ex_runner ''task_vpc_3subnets_3ec2'') (ex_world []))) \<and>
   ''destroy'' \<notin> set (snd (run (ex_runner ''task_vpc_3subnets_3ec2'') (ex_world [])))"
  using checks_failure_skips_destroy [OF ex_run_checks_fail] ex_run_checks_fail
  by blast







end
